theory Spec2Isabelle
  imports Main
begin

section \<open>JavaScript values the client relies on\<close>

text \<open>
  The client uses \<^verbatim>\<open>x || d\<close> on values that are a string or \<^verbatim>\<open>undefined\<close>
  (\<^verbatim>\<open>selectedPaper?.paper_id || null\<close>, \<^verbatim>\<open>error.detail || 'Upload failed'\<close>). The
  operator yields \<^verbatim>\<open>d\<close> for every falsy left operand: \<^verbatim>\<open>undefined\<close> and also the
  empty string.
\<close>

definition js_or :: "string option \<Rightarrow> string \<Rightarrow> string" where
  "js_or x d = (case x of None \<Rightarrow> d | Some v \<Rightarrow> if v = [] then d else v)"

definition js_or_null :: "string option \<Rightarrow> string option" where
  "js_or_null x = (case x of None \<Rightarrow> None | Some v \<Rightarrow> if v = [] then None else Some v)"

text \<open>\<^verbatim>\<open>Number.prototype.toString\<close> on a non-negative integer: its decimal digits.\<close>

definition digit :: "nat \<Rightarrow> char" where
  "digit d = char_of (48 + d)"

fun toString :: "nat \<Rightarrow> string" where
  "toString n = (if n < 10 then [digit n] else toString (n div 10) @ [digit (n mod 10)])"

declare toString.simps [simp del]

text \<open>The argument of \<^verbatim>\<open>JSON.stringify\<close>: an object keeps its keys in the order written.\<close>

datatype json =
    JNull
  | JString string
  | JNumber int
  | JArray "json list"
  | JObject "(string \<times> json) list"

fun object_fields :: "json \<Rightarrow> (string \<times> json) list" where
  "object_fields (JObject kvs) = kvs"
| "object_fields _ = []"

definition object_field :: "string \<Rightarrow> json \<Rightarrow> json option" where
  "object_field k j = map_of (object_fields j) k"

definition nullable :: "string option \<Rightarrow> json" where
  "nullable x = (case x of None \<Rightarrow> JNull | Some v \<Rightarrow> JString v)"

section \<open>Data model of the root view\<close>

record Paper =
  paper_id :: string
  filename :: string
  title :: "string option"
  upload_date :: string
  total_pages :: int
  total_chunks :: int

datatype role = user | assistant

record Citation =
  cite_paper_id :: string
  page :: int
  section_label :: string
  chunk_preview :: string

record Message =
  msg_id :: string
  role :: role
  content :: string
  citations :: "Citation list option"
  msg_mode :: "string option"
  timestamp :: nat

record PaperGroup =
  group_id :: string
  name :: string
  description :: "string option"
  paper_ids :: "string list"
  created_date :: string

datatype answer_mode = academic | simple | eli5

fun mode_string :: "answer_mode \<Rightarrow> string" where
  "mode_string academic = ''academic''"
| "mode_string simple = ''simple''"
| "mode_string eli5 = ''eli5''"

text \<open>The \<^verbatim>\<open>useState\<close> cells of \<^verbatim>\<open>Home\<close>, with their initial values.\<close>

record home_state =
  papers :: "Paper list"
  selectedPaper :: "Paper option"
  groups :: "PaperGroup list"
  selectedGroup :: "PaperGroup option"
  messages :: "Message list"
  isLoading :: bool
  mode :: answer_mode
  sidebarOpen :: bool

definition initial :: home_state where
  "initial = \<lparr>papers = [], selectedPaper = None, groups = [], selectedGroup = None,
     messages = [], isLoading = False, mode = academic, sidebarOpen = True\<rparr>"

section \<open>The network as seen by the client\<close>

text \<open>
  What \<^verbatim>\<open>await fetch(...)\<close> gives: the promise rejects (with an error carrying a message),
  or it resolves to a response with its \<^verbatim>\<open>ok\<close> flag. The second component of a response
  is what \<^verbatim>\<open>await res.json()\<close> gives when the code calls it: it throws, or it yields the
  part of the parsed body that the caller reads. Each caller reads the body on one branch only,
  inside its \<^verbatim>\<open>try\<close>; a body that parses to \<^verbatim>\<open>null\<close> makes that read throw there, so
  \<open>JsonError\<close> stands for it as well.
\<close>

datatype 'a json_result = JsonError string | Json 'a

datatype 'a fetch_result = Rejected string | Response bool "'a json_result"

record File =
  file_name :: string
  file_type :: string

datatype req_body = NoBody | JsonBody json | FormData "(string \<times> File) list"

text \<open>A request; \<open>path\<close> is the part of the URL after \<^verbatim>\<open>API_BASE\<close>.\<close>

record request =
  http_method :: string
  path :: string
  headers :: "(string \<times> string) list"
  body :: req_body

text \<open>The \<^verbatim>\<open>{ success, error }\<close> object the form-driven calls return.\<close>

record op_result =
  success :: bool
  error :: "string option"

definition succeeded :: op_result where
  "succeeded = \<lparr>success = True, error = None\<rparr>"

definition failed_with :: "string \<Rightarrow> op_result" where
  "failed_with msg = \<lparr>success = False, error = Some msg\<rparr>"

section \<open>List refreshes\<close>

text \<open>
  \<^verbatim>\<open>fetchPapers\<close>: a rejected request, a non-ok status and a body that does not parse all leave
  the state as it is; otherwise \<^verbatim>\<open>setPapers(data.papers || [])\<close>. The body is given as
  \<^verbatim>\<open>data.papers\<close>, \<open>None\<close> when the key is absent.
\<close>

definition fetchPapers :: "home_state \<Rightarrow> Paper list option fetch_result \<Rightarrow> home_state" where
  "fetchPapers s r =
     (case r of
        Rejected e \<Rightarrow> s
      | Response ok b \<Rightarrow>
          if \<not> ok then s
          else (case b of
                  JsonError e \<Rightarrow> s
                | Json data_papers \<Rightarrow>
                    s\<lparr>papers := (case data_papers of None \<Rightarrow> [] | Some ps \<Rightarrow> ps)\<rparr>))"

definition fetchGroups :: "home_state \<Rightarrow> PaperGroup list option fetch_result \<Rightarrow> home_state" where
  "fetchGroups s r =
     (case r of
        Rejected e \<Rightarrow> s
      | Response ok b \<Rightarrow>
          if \<not> ok then s
          else (case b of
                  JsonError e \<Rightarrow> s
                | Json data_groups \<Rightarrow>
                    s\<lparr>groups := (case data_groups of None \<Rightarrow> [] | Some gs \<Rightarrow> gs)\<rparr>))"

section \<open>Group and paper operations\<close>

text \<open>
  Each \<^verbatim>\<open>try\<close> body is a function into a sum: \<open>Inl msg\<close> is an exception with that message
  reaching the \<^verbatim>\<open>catch\<close>, \<open>Inr\<close> is normal completion with the state reached. A call is
  modelled as running to its completion, given the outcome of its own request and of the list
  refresh that follows it; the values it reads from its closure are those of the state at the
  call.

  \<^verbatim>\<open>createGroup\<close>: on a non-ok status the body is read for \<^verbatim>\<open>error.detail\<close> and
  \<^verbatim>\<open>new Error(error.detail || 'Failed to create group')\<close> is thrown.
\<close>

definition createGroup_try ::
  "home_state \<Rightarrow> string option fetch_result \<Rightarrow> PaperGroup list option fetch_result
     \<Rightarrow> string + home_state" where
  "createGroup_try s r rg =
     (case r of
        Rejected e \<Rightarrow> Inl e
      | Response ok b \<Rightarrow>
          if \<not> ok then
            (case b of
               JsonError e \<Rightarrow> Inl e
             | Json detail \<Rightarrow> Inl (js_or detail ''Failed to create group''))
          else Inr (fetchGroups s rg))"

definition createGroup ::
  "home_state \<Rightarrow> string \<Rightarrow> string option \<Rightarrow> string list \<Rightarrow> string option fetch_result
     \<Rightarrow> PaperGroup list option fetch_result \<Rightarrow> op_result \<times> home_state" where
  "createGroup s name' description' paperIds r rg =
     (case createGroup_try s r rg of
        Inr s' \<Rightarrow> (succeeded, s')
      | Inl msg \<Rightarrow> (failed_with msg, s))"

text \<open>
  \<^verbatim>\<open>deleteGroup\<close>: a non-ok status returns early; after the refresh the selection is cleared
  when \<^verbatim>\<open>selectedGroup?.group_id === groupId\<close>.
\<close>

definition deleteGroup ::
  "home_state \<Rightarrow> string \<Rightarrow> unit fetch_result \<Rightarrow> PaperGroup list option fetch_result
     \<Rightarrow> home_state" where
  "deleteGroup s groupId r rg =
     (case r of
        Rejected e \<Rightarrow> s
      | Response ok b \<Rightarrow>
          if \<not> ok then s
          else (let s' = fetchGroups s rg in
                if map_option group_id (selectedGroup s) = Some groupId
                then s'\<lparr>selectedGroup := None\<rparr> else s'))"

definition addPapersToGroup_try ::
  "home_state \<Rightarrow> unit fetch_result \<Rightarrow> PaperGroup list option fetch_result
     \<Rightarrow> string + home_state" where
  "addPapersToGroup_try s r rg =
     (case r of
        Rejected e \<Rightarrow> Inl e
      | Response ok b \<Rightarrow>
          if \<not> ok then Inl ''Failed to add papers to group''
          else Inr (fetchGroups s rg))"

definition addPapersToGroup ::
  "home_state \<Rightarrow> string \<Rightarrow> string list \<Rightarrow> unit fetch_result
     \<Rightarrow> PaperGroup list option fetch_result \<Rightarrow> op_result \<times> home_state" where
  "addPapersToGroup s groupId paperIds r rg =
     (case addPapersToGroup_try s r rg of
        Inr s' \<Rightarrow> (succeeded, s')
      | Inl msg \<Rightarrow> (failed_with msg, s))"

text \<open>
  \<^verbatim>\<open>uploadPaper\<close>: builds the form data, sets the loading flag and posts; \<^verbatim>\<open>finally\<close> clears
  the flag. \<open>uploadPaper_begin\<close> is the part before the first \<^verbatim>\<open>await\<close>: the state shown
  while the request is in flight, and the request.
\<close>

definition uploadPaper_begin :: "home_state \<Rightarrow> File \<Rightarrow> home_state \<times> request" where
  "uploadPaper_begin s file =
     (s\<lparr>isLoading := True\<rparr>,
      \<lparr>http_method = ''POST'', path = ''/upload_paper'', headers = [],
       body = FormData [(''file'', file)]\<rparr>)"

definition uploadPaper_try ::
  "home_state \<Rightarrow> string option fetch_result \<Rightarrow> Paper list option fetch_result
     \<Rightarrow> string + home_state" where
  "uploadPaper_try s r rp =
     (case r of
        Rejected e \<Rightarrow> Inl e
      | Response ok b \<Rightarrow>
          if \<not> ok then
            (case b of
               JsonError e \<Rightarrow> Inl e
             | Json detail \<Rightarrow> Inl (js_or detail ''Upload failed''))
          else Inr (fetchPapers s rp))"

definition uploadPaper_resume ::
  "home_state \<Rightarrow> string option fetch_result \<Rightarrow> Paper list option fetch_result
     \<Rightarrow> op_result \<times> home_state" where
  "uploadPaper_resume s r rp =
     (case uploadPaper_try s r rp of
        Inr s' \<Rightarrow> (succeeded, s'\<lparr>isLoading := False\<rparr>)
      | Inl msg \<Rightarrow> (failed_with msg, s\<lparr>isLoading := False\<rparr>))"

definition uploadPaper ::
  "home_state \<Rightarrow> File \<Rightarrow> string option fetch_result \<Rightarrow> Paper list option fetch_result
     \<Rightarrow> op_result \<times> home_state" where
  "uploadPaper s file r rp = uploadPaper_resume (fst (uploadPaper_begin s file)) r rp"

definition deletePaper ::
  "home_state \<Rightarrow> string \<Rightarrow> unit fetch_result \<Rightarrow> Paper list option fetch_result
     \<Rightarrow> home_state" where
  "deletePaper s paperId r rp =
     (case r of
        Rejected e \<Rightarrow> s
      | Response ok b \<Rightarrow>
          if \<not> ok then s
          else (let s' = fetchPapers s rp in
                if map_option paper_id (selectedPaper s) = Some paperId
                then s'\<lparr>selectedPaper := None\<rparr> else s'))"

section \<open>Chat submission\<close>

text \<open>
  The four clock readings of one \<^verbatim>\<open>askQuestion\<close> call, in milliseconds: \<^verbatim>\<open>Date.now()\<close> and
  \<^verbatim>\<open>new Date()\<close> for the user message, and again for the reply.
\<close>

record ask_clock =
  now_user :: nat
  date_user :: nat
  now_reply :: nat
  date_reply :: nat

text \<open>The body of a successful answer, at the shape the client reads it.\<close>

record ask_response =
  answer :: string
  resp_citations :: "Citation list"
  resp_mode :: string

definition userMessage :: "string \<Rightarrow> ask_clock \<Rightarrow> Message" where
  "userMessage question c =
     \<lparr>msg_id = toString (now_user c), role = user, content = question,
      citations = None, msg_mode = None, timestamp = date_user c\<rparr>"

definition assistantMessage :: "ask_response \<Rightarrow> ask_clock \<Rightarrow> Message" where
  "assistantMessage data c =
     \<lparr>msg_id = toString (now_reply c + 1), role = assistant, content = answer data,
      citations = Some (resp_citations data), msg_mode = Some (resp_mode data),
      timestamp = date_reply c\<rparr>"

definition errorMessage :: "ask_clock \<Rightarrow> Message" where
  "errorMessage c =
     \<lparr>msg_id = toString (now_reply c + 1), role = assistant,
      content = ''Sorry, I encountered an error processing your question. Please try again.'',
      citations = None, msg_mode = None, timestamp = date_reply c\<rparr>"

text \<open>
  The object given to \<^verbatim>\<open>JSON.stringify\<close>. The local \<^verbatim>\<open>paper_ids\<close> that the \<^verbatim>\<open>try\<close> block
  fills from \<^verbatim>\<open>selectedGroup.paper_ids\<close> is not referred to again, so it is no part of it.
\<close>

definition ask_body :: "home_state \<Rightarrow> string \<Rightarrow> json" where
  "ask_body s question =
     JObject
      [(''question'', JString question),
       (''paper_id'', nullable (js_or_null (map_option paper_id (selectedPaper s)))),
       (''group_id'', nullable (js_or_null (map_option group_id (selectedGroup s)))),
       (''mode'', JString (mode_string (mode s))),
       (''top_k'', JNumber 5)]"

text \<open>Up to the first \<^verbatim>\<open>await\<close>: the user message is appended, the flag set, the request sent.\<close>

definition askQuestion_begin ::
  "home_state \<Rightarrow> string \<Rightarrow> ask_clock \<Rightarrow> home_state \<times> request" where
  "askQuestion_begin s question c =
     (s\<lparr>messages := messages s @ [userMessage question c], isLoading := True\<rparr>,
      \<lparr>http_method = ''POST'', path = ''/ask_question'',
       headers = [(''Content-Type'', ''application/json'')],
       body = JsonBody (ask_body s question)\<rparr>)"

definition askQuestion_try ::
  "home_state \<Rightarrow> ask_clock \<Rightarrow> ask_response fetch_result \<Rightarrow> string + home_state" where
  "askQuestion_try s c r =
     (case r of
        Rejected e \<Rightarrow> Inl e
      | Response ok b \<Rightarrow>
          if \<not> ok then Inl ''Failed to get answer''
          else (case b of
                  JsonError e \<Rightarrow> Inl e
                | Json data \<Rightarrow> Inr (s\<lparr>messages := messages s @ [assistantMessage data c]\<rparr>)))"

definition askQuestion_resume ::
  "home_state \<Rightarrow> ask_clock \<Rightarrow> ask_response fetch_result \<Rightarrow> home_state" where
  "askQuestion_resume s c r =
     (case askQuestion_try s c r of
        Inr s' \<Rightarrow> s'\<lparr>isLoading := False\<rparr>
      | Inl msg \<Rightarrow> s\<lparr>messages := messages s @ [errorMessage c], isLoading := False\<rparr>)"

definition askQuestion ::
  "home_state \<Rightarrow> string \<Rightarrow> ask_clock \<Rightarrow> ask_response fetch_result \<Rightarrow> home_state" where
  "askQuestion s question c r = askQuestion_resume (fst (askQuestion_begin s question c)) c r"

text \<open>
  The chat panel: \<^verbatim>\<open>handleSubmit\<close> passes the trimmed input on only when it is not empty and
  nothing is loading, and the send button is disabled under the opposite condition. Both are
  given the input already trimmed.
\<close>

definition handleSubmit :: "string \<Rightarrow> bool \<Rightarrow> string option" where
  "handleSubmit trimmed loading = (if trimmed \<noteq> [] \<and> \<not> loading then Some trimmed else None)"

definition submitDisabled :: "string \<Rightarrow> bool \<Rightarrow> bool" where
  "submitDisabled trimmed loading = (trimmed = [] \<or> loading)"

section \<open>Selection callbacks and the events of the root view\<close>

definition onSelectPaper :: "home_state \<Rightarrow> Paper option \<Rightarrow> home_state" where
  "onSelectPaper s paper = s\<lparr>selectedPaper := paper, selectedGroup := None\<rparr>"

definition onSelectGroup :: "home_state \<Rightarrow> PaperGroup option \<Rightarrow> home_state" where
  "onSelectGroup s grp = s\<lparr>selectedGroup := grp, selectedPaper := None\<rparr>"

definition toggleSidebar :: "home_state \<Rightarrow> home_state" where
  "toggleSidebar s = s\<lparr>sidebarOpen := \<not> sidebarOpen s\<rparr>"

text \<open>
  Everything that changes the state of \<^verbatim>\<open>Home\<close>: the two refreshes started on mount, the
  callbacks handed to the header, the sidebar and the chat panel. An event of a network call
  carries the outcomes of its requests.
\<close>

datatype event =
    FetchPapers "Paper list option fetch_result"
  | FetchGroups "PaperGroup list option fetch_result"
  | CreateGroup string "string option" "string list" "string option fetch_result"
      "PaperGroup list option fetch_result"
  | DeleteGroup string "unit fetch_result" "PaperGroup list option fetch_result"
  | AddPapersToGroup string "string list" "unit fetch_result"
      "PaperGroup list option fetch_result"
  | UploadPaper File "string option fetch_result" "Paper list option fetch_result"
  | DeletePaper string "unit fetch_result" "Paper list option fetch_result"
  | AskQuestion string ask_clock "ask_response fetch_result"
  | SelectPaper "Paper option"
  | SelectGroup "PaperGroup option"
  | SetMode answer_mode
  | ToggleSidebar

fun step :: "home_state \<Rightarrow> event \<Rightarrow> home_state" where
  "step s (FetchPapers r) = fetchPapers s r"
| "step s (FetchGroups r) = fetchGroups s r"
| "step s (CreateGroup n d ids r rg) = snd (createGroup s n d ids r rg)"
| "step s (DeleteGroup gid r rg) = deleteGroup s gid r rg"
| "step s (AddPapersToGroup gid ids r rg) = snd (addPapersToGroup s gid ids r rg)"
| "step s (UploadPaper f r rp) = snd (uploadPaper s f r rp)"
| "step s (DeletePaper pid r rp) = deletePaper s pid r rp"
| "step s (AskQuestion q c r) = askQuestion s q c r"
| "step s (SelectPaper p) = onSelectPaper s p"
| "step s (SelectGroup g) = onSelectGroup s g"
| "step s (SetMode m) = s\<lparr>mode := m\<rparr>"
| "step s ToggleSidebar = toggleSidebar s"

definition run :: "event list \<Rightarrow> home_state" where
  "run es = foldl step initial es"

text \<open>
  The state on screen while the request of an event is awaited: the calls that change the
  state before their first \<^verbatim>\<open>await\<close> are \<^verbatim>\<open>uploadPaper\<close> and \<^verbatim>\<open>askQuestion\<close>.
\<close>

fun in_flight :: "home_state \<Rightarrow> event \<Rightarrow> home_state" where
  "in_flight s (UploadPaper f r rp) = fst (uploadPaper_begin s f)"
| "in_flight s (AskQuestion q c r) = fst (askQuestion_begin s q c)"
| "in_flight s e = s"

text \<open>The request of an event failed: the promise rejected, or the status was not ok.\<close>

fun failed :: "'a fetch_result \<Rightarrow> bool" where
  "failed (Rejected e) = True"
| "failed (Response ok b) = (\<not> ok)"

fun request_failed :: "event \<Rightarrow> bool" where
  "request_failed (FetchPapers r) = failed r"
| "request_failed (FetchGroups r) = failed r"
| "request_failed (CreateGroup n d ids r rg) = failed r"
| "request_failed (DeleteGroup gid r rg) = failed r"
| "request_failed (AddPapersToGroup gid ids r rg) = failed r"
| "request_failed (UploadPaper f r rp) = failed r"
| "request_failed (DeletePaper pid r rp) = failed r"
| "request_failed (AskQuestion q c r) = failed r"
| "request_failed e = False"

definition exclusive :: "home_state \<Rightarrow> bool" where
  "exclusive s = (selectedPaper s = None \<or> selectedGroup s = None)"

section \<open>Sidebar: the upload zone\<close>

record sidebar_state =
  isDragging :: bool
  uploadProgress :: "string option"
  sidebar_error :: "string option"
  showGroupModal :: bool

text \<open>
  The handlers give the new state and the files handed to \<^verbatim>\<open>onUpload\<close>, in order;
  \<open>onUpload\<close> stands for what that call resolves to. The success text starts with a check mark
  (U+2713), here its three UTF-8 bytes; the timer that clears it two seconds later is a separate
  event.
\<close>

definition handleFileUpload ::
  "(File \<Rightarrow> op_result) \<Rightarrow> sidebar_state \<Rightarrow> File \<Rightarrow> sidebar_state \<times> File list" where
  "handleFileUpload onUpload st file =
     (let st1 = st\<lparr>uploadProgress := Some ''Processing...'', sidebar_error := None\<rparr>;
          result = onUpload file
      in if success result
         then (st1\<lparr>uploadProgress := Some ([CHR 0xE2, CHR 0x9C, CHR 0x93] @ '' Success!'')\<rparr>,
               [file])
         else (st1\<lparr>sidebar_error := Some (js_or (error result) ''Upload failed''),
                    uploadProgress := None\<rparr>, [file]))"

definition handleDrop ::
  "(File \<Rightarrow> op_result) \<Rightarrow> sidebar_state \<Rightarrow> File option \<Rightarrow> sidebar_state \<times> File list" where
  "handleDrop onUpload st dropped =
     (let st1 = st\<lparr>isDragging := False, sidebar_error := None\<rparr>
      in case dropped of
           None \<Rightarrow> (st1\<lparr>sidebar_error := Some ''Please upload a PDF file''\<rparr>, [])
         | Some file \<Rightarrow>
             if file_type file = ''application/pdf'' then handleFileUpload onUpload st1 file
             else (st1\<lparr>sidebar_error := Some ''Please upload a PDF file''\<rparr>, []))"

definition handleFileSelect ::
  "(File \<Rightarrow> op_result) \<Rightarrow> sidebar_state \<Rightarrow> File option \<Rightarrow> sidebar_state \<times> File list" where
  "handleFileSelect onUpload st chosen =
     (case chosen of
        None \<Rightarrow> (st, [])
      | Some file \<Rightarrow> handleFileUpload onUpload st file)"

section \<open>Group modal: the locally toggled paper selection\<close>

text \<open>
  \<^verbatim>\<open>GroupModal.tsx\<close> keeps the chosen paper identifiers in \<^verbatim>\<open>selectedPaperIds\<close>, a
  \<^verbatim>\<open>string[]\<close>. \<^verbatim>\<open>togglePaper\<close> replaces it by
  \<^verbatim>\<open>prev.includes(paperId) ? prev.filter(id => id !== paperId) : [...prev, paperId]\<close>.
\<close>

definition togglePaper :: "string list \<Rightarrow> string \<Rightarrow> string list" where
  "togglePaper prev paperId =
     (if paperId \<in> set prev then filter (\<lambda>id. id \<noteq> paperId) prev else prev @ [paperId])"

section \<open>What each operation leaves alone\<close>

lemmas outcome_splits = fetch_result.split json_result.split

lemma fetchPapers_frame [simp]:
  "selectedPaper (fetchPapers s r) = selectedPaper s"
  "selectedGroup (fetchPapers s r) = selectedGroup s"
  "groups (fetchPapers s r) = groups s"
  "messages (fetchPapers s r) = messages s"
  "isLoading (fetchPapers s r) = isLoading s"
  "mode (fetchPapers s r) = mode s"
  "sidebarOpen (fetchPapers s r) = sidebarOpen s"
  by (simp_all add: fetchPapers_def split: outcome_splits)

lemma fetchGroups_frame [simp]:
  "selectedPaper (fetchGroups s r) = selectedPaper s"
  "selectedGroup (fetchGroups s r) = selectedGroup s"
  "papers (fetchGroups s r) = papers s"
  "messages (fetchGroups s r) = messages s"
  "isLoading (fetchGroups s r) = isLoading s"
  "mode (fetchGroups s r) = mode s"
  "sidebarOpen (fetchGroups s r) = sidebarOpen s"
  by (simp_all add: fetchGroups_def split: outcome_splits)

lemma fetch_failed [simp]:
  "failed r \<Longrightarrow> fetchPapers s r = s"
  "failed rg \<Longrightarrow> fetchGroups s rg = s"
  by (cases r; simp add: fetchPapers_def) (cases rg; simp add: fetchGroups_def)

lemma createGroup_frame [simp]:
  "selectedPaper (snd (createGroup s n d ids r rg)) = selectedPaper s"
  "selectedGroup (snd (createGroup s n d ids r rg)) = selectedGroup s"
  "papers (snd (createGroup s n d ids r rg)) = papers s"
  "messages (snd (createGroup s n d ids r rg)) = messages s"
  "isLoading (snd (createGroup s n d ids r rg)) = isLoading s"
  "mode (snd (createGroup s n d ids r rg)) = mode s"
  "sidebarOpen (snd (createGroup s n d ids r rg)) = sidebarOpen s"
  by (simp_all add: createGroup_def createGroup_try_def split: outcome_splits)

lemma createGroup_failed [simp]: "failed r \<Longrightarrow> snd (createGroup s n d ids r rg) = s"
  by (cases r) (simp_all add: createGroup_def createGroup_try_def split: json_result.split)

lemma addPapersToGroup_frame [simp]:
  "selectedPaper (snd (addPapersToGroup s gid ids r rg)) = selectedPaper s"
  "selectedGroup (snd (addPapersToGroup s gid ids r rg)) = selectedGroup s"
  "papers (snd (addPapersToGroup s gid ids r rg)) = papers s"
  "messages (snd (addPapersToGroup s gid ids r rg)) = messages s"
  "isLoading (snd (addPapersToGroup s gid ids r rg)) = isLoading s"
  "mode (snd (addPapersToGroup s gid ids r rg)) = mode s"
  "sidebarOpen (snd (addPapersToGroup s gid ids r rg)) = sidebarOpen s"
  by (simp_all add: addPapersToGroup_def addPapersToGroup_try_def split: outcome_splits)

lemma addPapersToGroup_failed [simp]: "failed r \<Longrightarrow> snd (addPapersToGroup s gid ids r rg) = s"
  by (cases r) (simp_all add: addPapersToGroup_def addPapersToGroup_try_def)

lemma deleteGroup_frame [simp]:
  "selectedPaper (deleteGroup s gid r rg) = selectedPaper s"
  "papers (deleteGroup s gid r rg) = papers s"
  "messages (deleteGroup s gid r rg) = messages s"
  "isLoading (deleteGroup s gid r rg) = isLoading s"
  "mode (deleteGroup s gid r rg) = mode s"
  "sidebarOpen (deleteGroup s gid r rg) = sidebarOpen s"
  by (simp_all add: deleteGroup_def Let_def split: outcome_splits)

lemma deleteGroup_selection:
  "selectedGroup (deleteGroup s gid r rg) = None
     \<or> selectedGroup (deleteGroup s gid r rg) = selectedGroup s"
  by (simp add: deleteGroup_def Let_def split: outcome_splits)

lemma deleteGroup_failed [simp]: "failed r \<Longrightarrow> deleteGroup s gid r rg = s"
  by (cases r) (simp_all add: deleteGroup_def)

lemma deletePaper_frame [simp]:
  "selectedGroup (deletePaper s pid r rp) = selectedGroup s"
  "groups (deletePaper s pid r rp) = groups s"
  "messages (deletePaper s pid r rp) = messages s"
  "isLoading (deletePaper s pid r rp) = isLoading s"
  "mode (deletePaper s pid r rp) = mode s"
  "sidebarOpen (deletePaper s pid r rp) = sidebarOpen s"
  by (simp_all add: deletePaper_def Let_def split: outcome_splits)

lemma deletePaper_selection:
  "selectedPaper (deletePaper s pid r rp) = None
     \<or> selectedPaper (deletePaper s pid r rp) = selectedPaper s"
  by (simp add: deletePaper_def Let_def split: outcome_splits)

lemma deletePaper_failed [simp]: "failed r \<Longrightarrow> deletePaper s pid r rp = s"
  by (cases r) (simp_all add: deletePaper_def)

lemma uploadPaper_frame [simp]:
  "selectedPaper (snd (uploadPaper s f r rp)) = selectedPaper s"
  "selectedGroup (snd (uploadPaper s f r rp)) = selectedGroup s"
  "groups (snd (uploadPaper s f r rp)) = groups s"
  "messages (snd (uploadPaper s f r rp)) = messages s"
  "isLoading (snd (uploadPaper s f r rp)) = False"
  "mode (snd (uploadPaper s f r rp)) = mode s"
  "sidebarOpen (snd (uploadPaper s f r rp)) = sidebarOpen s"
  by (simp_all add: uploadPaper_def uploadPaper_resume_def uploadPaper_try_def
      uploadPaper_begin_def split: outcome_splits)

lemma uploadPaper_failed [simp]: "failed r \<Longrightarrow> papers (snd (uploadPaper s f r rp)) = papers s"
  by (cases r) (simp_all add: uploadPaper_def uploadPaper_resume_def uploadPaper_try_def
      uploadPaper_begin_def split: json_result.split)

lemma askQuestion_frame [simp]:
  "selectedPaper (askQuestion s q c r) = selectedPaper s"
  "selectedGroup (askQuestion s q c r) = selectedGroup s"
  "papers (askQuestion s q c r) = papers s"
  "groups (askQuestion s q c r) = groups s"
  "isLoading (askQuestion s q c r) = False"
  "mode (askQuestion s q c r) = mode s"
  "sidebarOpen (askQuestion s q c r) = sidebarOpen s"
  by (simp_all add: askQuestion_def askQuestion_resume_def askQuestion_try_def
      askQuestion_begin_def split: outcome_splits)

lemma askQuestion_failed [simp]:
  "failed r \<Longrightarrow> messages (askQuestion s q c r) = messages s @ [userMessage q c, errorMessage c]"
  by (cases r) (simp_all add: askQuestion_def askQuestion_resume_def askQuestion_try_def
      askQuestion_begin_def)

section \<open>Selections exclude each other\<close>

lemma step_exclusive:
  assumes "exclusive s"
  shows "exclusive (step s e)"
proof (cases e)
  case (DeleteGroup gid r rg)
  with assms show ?thesis
    using deleteGroup_selection [of s gid r rg] by (auto simp: exclusive_def)
next
  case (DeletePaper pid r rp)
  with assms show ?thesis
    using deletePaper_selection [of s pid r rp] by (auto simp: exclusive_def)
qed (use assms in \<open>simp_all add: exclusive_def onSelectPaper_def onSelectGroup_def toggleSidebar_def\<close>)

lemma foldl_step_exclusive: "exclusive s \<Longrightarrow> exclusive (foldl step s es)"
  by (induction es arbitrary: s) (simp_all add: step_exclusive)

lemma run_exclusive: "exclusive (run es)"
  unfolding run_def by (rule foldl_step_exclusive) (simp add: exclusive_def initial_def)

lemma in_flight_selection:
  "selectedPaper (in_flight s e) = selectedPaper s"
  "selectedGroup (in_flight s e) = selectedGroup s"
  by (cases e; simp add: uploadPaper_begin_def askQuestion_begin_def)+

section \<open>The request of a question\<close>

lemmas ask_defs = askQuestion_def askQuestion_resume_def askQuestion_try_def askQuestion_begin_def

lemma field_ask_body:
  "object_field k (ask_body s q) = map_of
      [(''question'', JString q),
       (''paper_id'', nullable (js_or_null (map_option paper_id (selectedPaper s)))),
       (''group_id'', nullable (js_or_null (map_option group_id (selectedGroup s)))),
       (''mode'', JString (mode_string (mode s))),
       (''top_k'', JNumber 5)] k"
  by (simp add: object_field_def ask_body_def)

section \<open>Properties\<close>

text \<open>
  C1. Every call of \<open>askQuestion\<close> appends exactly two entries to the transcript. When the
  request resolves with an ok status and a body that parses, they are the user message and an
  assistant message built from the answer, the citations and the mode of the response. For
  every other outcome (a body that does not parse, a non-ok status, a rejected request) they
  are the user message and the assistant message with the fixed apology.
\<close>

theorem askQuestion_appends_two_messages:
  "messages (askQuestion s q c (Response True (Json d)))
     = messages s @ [userMessage q c, assistantMessage d c]
   \<and> messages (askQuestion s q c (Response True (JsonError e)))
     = messages s @ [userMessage q c, errorMessage c]
   \<and> messages (askQuestion s q c (Response False b))
     = messages s @ [userMessage q c, errorMessage c]
   \<and> messages (askQuestion s q c (Rejected e))
     = messages s @ [userMessage q c, errorMessage c]
   \<and> length (messages (askQuestion s q c r)) = length (messages s) + 2
   \<and> role (userMessage q c) = user \<and> content (userMessage q c) = q
   \<and> role (assistantMessage d c) = assistant
   \<and> content (assistantMessage d c) = answer d
   \<and> citations (assistantMessage d c) = Some (resp_citations d)
   \<and> msg_mode (assistantMessage d c) = Some (resp_mode d)
   \<and> role (errorMessage c) = assistant
   \<and> content (errorMessage c)
     = ''Sorry, I encountered an error processing your question. Please try again.''"
  by (simp add: ask_defs userMessage_def assistantMessage_def errorMessage_def
      split: outcome_splits)

text \<open>
  C2, as the code has it. The request of a question is a POST to \<^verbatim>\<open>/ask_question\<close> whose
  body has exactly the keys \<^verbatim>\<open>question\<close>, \<^verbatim>\<open>paper_id\<close>, \<^verbatim>\<open>group_id\<close>, \<^verbatim>\<open>mode\<close> and
  \<^verbatim>\<open>top_k\<close>: the question text, the id of the focused paper (null when there is none or the
  id is empty), the id of the focused group (null likewise), the active mode, and 5.
\<close>

theorem ask_request_contents:
  "http_method (snd (askQuestion_begin s q c)) = ''POST''
   \<and> path (snd (askQuestion_begin s q c)) = ''/ask_question''
   \<and> body (snd (askQuestion_begin s q c)) = JsonBody (ask_body s q)
   \<and> map fst (object_fields (ask_body s q))
       = [''question'', ''paper_id'', ''group_id'', ''mode'', ''top_k'']
   \<and> object_field ''question'' (ask_body s q) = Some (JString q)
   \<and> object_field ''paper_id'' (ask_body s q)
       = Some (case selectedPaper s of None \<Rightarrow> JNull
               | Some p \<Rightarrow> if paper_id p = [] then JNull else JString (paper_id p))
   \<and> object_field ''group_id'' (ask_body s q)
       = Some (case selectedGroup s of None \<Rightarrow> JNull
               | Some g \<Rightarrow> if group_id g = [] then JNull else JString (group_id g))
   \<and> object_field ''mode'' (ask_body s q) = Some (JString (mode_string (mode s)))
   \<and> object_field ''top_k'' (ask_body s q) = Some (JNumber 5)"
  by (simp add: askQuestion_begin_def field_ask_body nullable_def js_or_null_def
      split: option.split) (simp add: ask_body_def)

text \<open>
  C2 as worded asks for the paper-id list of the focused group in the request. With a group
  of two papers selected, the body names the group by its id and no value in it is the list of
  the two paper ids.
\<close>

theorem ask_request_omits_paper_ids:
  "body (snd (askQuestion_begin
      (run [SelectGroup (Some \<lparr>group_id = ''g1'', name = ''Seizure Detection Papers'',
          description = None, paper_ids = [''p1'', ''p2''], created_date = ''2024-01-01''\<rparr>)])
      ''What is the sample size?''
      \<lparr>now_user = 1000, date_user = 1000, now_reply = 2000, date_reply = 2000\<rparr>))
    = JsonBody (JObject
        [(''question'', JString ''What is the sample size?''),
         (''paper_id'', JNull),
         (''group_id'', JString ''g1''),
         (''mode'', JString ''academic''),
         (''top_k'', JNumber 5)])
   \<and> JArray [JString ''p1'', JString ''p2'']
       \<notin> set (map snd (object_fields (ask_body
            (run [SelectGroup (Some \<lparr>group_id = ''g1'', name = ''Seizure Detection Papers'',
          description = None, paper_ids = [''p1'', ''p2''], created_date = ''2024-01-01''\<rparr>)])
            ''What is the sample size?'')))"
  by (simp add: run_def initial_def onSelectGroup_def askQuestion_begin_def ask_body_def
      nullable_def js_or_null_def)

text \<open>
  C3, as the code has it. In every state the root view can reach, a question asked while a
  group with a non-empty id is selected goes out with that id as \<^verbatim>\<open>group_id\<close> and null as
  \<^verbatim>\<open>paper_id\<close>. In any state at all, \<^verbatim>\<open>top_k\<close> is 5.
\<close>

theorem ask_request_for_group:
  assumes "selectedGroup (run es) = Some g" and "group_id g \<noteq> []"
  shows "object_field ''group_id'' (ask_body (run es) q) = Some (JString (group_id g))
       \<and> object_field ''paper_id'' (ask_body (run es) q) = Some JNull
       \<and> body (snd (askQuestion_begin (run es) q c)) = JsonBody (ask_body (run es) q)
       \<and> object_field ''top_k'' (ask_body s q') = Some (JNumber 5)"
proof -
  have "selectedPaper (run es) = None"
    using run_exclusive [of es] assms(1) by (simp add: exclusive_def)
  with assms show ?thesis
    by (simp add: field_ask_body nullable_def js_or_null_def askQuestion_begin_def)
qed

theorem ask_request_for_group_witness:
  "selectedGroup (run [SelectPaper (Some \<lparr>paper_id = ''p1'', filename = ''eeg.pdf'', title = None,
          upload_date = ''2024-01-01'', total_pages = 12, total_chunks = 40\<rparr>), SelectGroup (Some \<lparr>group_id = ''g1'', name = ''Seizure Detection Papers'',
          description = None, paper_ids = [''p1'', ''p2''], created_date = ''2024-01-01''\<rparr>)]) = Some \<lparr>group_id = ''g1'', name = ''Seizure Detection Papers'',
          description = None, paper_ids = [''p1'', ''p2''], created_date = ''2024-01-01''\<rparr>
   \<and> group_id \<lparr>group_id = ''g1'', name = ''Seizure Detection Papers'',
          description = None, paper_ids = [''p1'', ''p2''], created_date = ''2024-01-01''\<rparr> \<noteq> []
   \<and> object_field ''group_id''
        (ask_body (run [SelectPaper (Some \<lparr>paper_id = ''p1'', filename = ''eeg.pdf'', title = None,
          upload_date = ''2024-01-01'', total_pages = 12, total_chunks = 40\<rparr>), SelectGroup (Some \<lparr>group_id = ''g1'', name = ''Seizure Detection Papers'',
          description = None, paper_ids = [''p1'', ''p2''], created_date = ''2024-01-01''\<rparr>)]) ''What is the sample size?'')
       = Some (JString ''g1'')
   \<and> object_field ''paper_id''
        (ask_body (run [SelectPaper (Some \<lparr>paper_id = ''p1'', filename = ''eeg.pdf'', title = None,
          upload_date = ''2024-01-01'', total_pages = 12, total_chunks = 40\<rparr>), SelectGroup (Some \<lparr>group_id = ''g1'', name = ''Seizure Detection Papers'',
          description = None, paper_ids = [''p1'', ''p2''], created_date = ''2024-01-01''\<rparr>)]) ''What is the sample size?'')
       = Some JNull"
proof -
  have sel: "selectedGroup (run [SelectPaper (Some \<lparr>paper_id = ''p1'', filename = ''eeg.pdf'', title = None,
          upload_date = ''2024-01-01'', total_pages = 12, total_chunks = 40\<rparr>), SelectGroup (Some \<lparr>group_id = ''g1'', name = ''Seizure Detection Papers'',
          description = None, paper_ids = [''p1'', ''p2''], created_date = ''2024-01-01''\<rparr>)]) = Some \<lparr>group_id = ''g1'', name = ''Seizure Detection Papers'',
          description = None, paper_ids = [''p1'', ''p2''], created_date = ''2024-01-01''\<rparr>"
    by (simp add: run_def onSelectPaper_def onSelectGroup_def)
  have ne: "group_id \<lparr>group_id = ''g1'', name = ''Seizure Detection Papers'',
          description = None, paper_ids = [''p1'', ''p2''], created_date = ''2024-01-01''\<rparr> \<noteq> []"
    by simp
  show ?thesis
    using sel ne ask_request_for_group [OF sel ne, of "''What is the sample size?''"]
    by simp
qed

text \<open>
  C3 as worded covers every selected group. A group whose id is the empty string is selected;
  the question goes out with \<^verbatim>\<open>group_id\<close> null, which is not that id.
\<close>

theorem ask_request_empty_group_id:
  "selectedGroup (run [SelectGroup (Some \<lparr>group_id = '''', name = ''Untitled'',
          description = None, paper_ids = [''p1'', ''p2''], created_date = ''2024-01-01''\<rparr>)]) = Some \<lparr>group_id = '''', name = ''Untitled'',
          description = None, paper_ids = [''p1'', ''p2''], created_date = ''2024-01-01''\<rparr>
   \<and> object_field ''group_id''
        (ask_body (run [SelectGroup (Some \<lparr>group_id = '''', name = ''Untitled'',
          description = None, paper_ids = [''p1'', ''p2''], created_date = ''2024-01-01''\<rparr>)]) ''What is the sample size?'')
       = Some JNull
   \<and> JNull \<noteq> JString (group_id \<lparr>group_id = '''', name = ''Untitled'',
          description = None, paper_ids = [''p1'', ''p2''], created_date = ''2024-01-01''\<rparr>)"
  by (simp add: run_def initial_def onSelectGroup_def field_ask_body nullable_def js_or_null_def)

text \<open>
  C4. Selecting a paper clears the selected group, selecting a group clears the selected
  paper, and in every state the root view reaches, also while a request is awaited, at most one
  of the two selections is set: no event takes a state with at most one selection to a state
  with two.
\<close>

theorem selections_mutually_exclusive:
  "selectedGroup (onSelectPaper s p) = None
   \<and> selectedPaper (onSelectGroup s g) = None
   \<and> exclusive (run es)
   \<and> exclusive (in_flight (run es) e)
   \<and> (exclusive s \<longrightarrow> exclusive (step s e))"
proof -
  have "exclusive (in_flight (run es) e)"
    using run_exclusive [of es] by (simp add: exclusive_def in_flight_selection)
  then show ?thesis
    by (simp add: run_exclusive step_exclusive onSelectPaper_def onSelectGroup_def)
qed

theorem selections_mutually_exclusive_witness:
  "exclusive (onSelectPaper initial (Some \<lparr>paper_id = ''p1'', filename = ''eeg.pdf'', title = None,
          upload_date = ''2024-01-01'', total_pages = 12, total_chunks = 40\<rparr>))
   \<and> selectedPaper (onSelectPaper initial (Some \<lparr>paper_id = ''p1'', filename = ''eeg.pdf'', title = None,
          upload_date = ''2024-01-01'', total_pages = 12, total_chunks = 40\<rparr>)) = Some \<lparr>paper_id = ''p1'', filename = ''eeg.pdf'', title = None,
          upload_date = ''2024-01-01'', total_pages = 12, total_chunks = 40\<rparr>
   \<and> exclusive (step (onSelectPaper initial (Some \<lparr>paper_id = ''p1'', filename = ''eeg.pdf'', title = None,
          upload_date = ''2024-01-01'', total_pages = 12, total_chunks = 40\<rparr>)) (SelectGroup (Some \<lparr>group_id = ''g1'', name = ''Seizure Detection Papers'',
          description = None, paper_ids = [''p1'', ''p2''], created_date = ''2024-01-01''\<rparr>)))
   \<and> selectedGroup (step (onSelectPaper initial (Some \<lparr>paper_id = ''p1'', filename = ''eeg.pdf'', title = None,
          upload_date = ''2024-01-01'', total_pages = 12, total_chunks = 40\<rparr>)) (SelectGroup (Some \<lparr>group_id = ''g1'', name = ''Seizure Detection Papers'',
          description = None, paper_ids = [''p1'', ''p2''], created_date = ''2024-01-01''\<rparr>))) = Some \<lparr>group_id = ''g1'', name = ''Seizure Detection Papers'',
          description = None, paper_ids = [''p1'', ''p2''], created_date = ''2024-01-01''\<rparr>
   \<and> selectedPaper (step (onSelectPaper initial (Some \<lparr>paper_id = ''p1'', filename = ''eeg.pdf'', title = None,
          upload_date = ''2024-01-01'', total_pages = 12, total_chunks = 40\<rparr>)) (SelectGroup (Some \<lparr>group_id = ''g1'', name = ''Seizure Detection Papers'',
          description = None, paper_ids = [''p1'', ''p2''], created_date = ''2024-01-01''\<rparr>))) = None"
proof -
  have ex: "exclusive (onSelectPaper initial (Some \<lparr>paper_id = ''p1'', filename = ''eeg.pdf'', title = None,
          upload_date = ''2024-01-01'', total_pages = 12, total_chunks = 40\<rparr>))"
    by (simp add: exclusive_def onSelectPaper_def)
  show ?thesis
    using ex selections_mutually_exclusive
      [of "onSelectPaper initial (Some \<lparr>paper_id = ''p1'', filename = ''eeg.pdf'', title = None,
          upload_date = ''2024-01-01'', total_pages = 12, total_chunks = 40\<rparr>)" None None "[]" "SelectGroup (Some \<lparr>group_id = ''g1'', name = ''Seizure Detection Papers'',
          description = None, paper_ids = [''p1'', ''p2''], created_date = ''2024-01-01''\<rparr>)"]
    by (simp add: onSelectPaper_def onSelectGroup_def)
qed

text \<open>
  C5, at a file that is not a PDF. Chosen through the file selector, \<^verbatim>\<open>notes.txt\<close> of type
  \<^verbatim>\<open>text/plain\<close> is handed to \<^verbatim>\<open>onUpload\<close>, which posts it to \<^verbatim>\<open>/upload_paper\<close>; when the
  upload succeeds no error is shown. Dropped on the upload zone, the same file is handed to
  nobody and the error \<^verbatim>\<open>Please upload a PDF file\<close> is shown.
\<close>

theorem file_selector_uploads_non_pdf:
  "snd (handleFileSelect onUpload st (Some \<lparr>file_name = ''notes.txt'', file_type = ''text/plain''\<rparr>))
     = [\<lparr>file_name = ''notes.txt'', file_type = ''text/plain''\<rparr>]
   \<and> snd (uploadPaper_begin s \<lparr>file_name = ''notes.txt'', file_type = ''text/plain''\<rparr>)
     = \<lparr>http_method = ''POST'', path = ''/upload_paper'', headers = [],
        body = FormData [(''file'', \<lparr>file_name = ''notes.txt'', file_type = ''text/plain''\<rparr>)]\<rparr>
   \<and> sidebar_error (fst (handleFileSelect (\<lambda>f. succeeded) st
         (Some \<lparr>file_name = ''notes.txt'', file_type = ''text/plain''\<rparr>))) = None
   \<and> snd (handleDrop onUpload st (Some \<lparr>file_name = ''notes.txt'', file_type = ''text/plain''\<rparr>)) = []
   \<and> sidebar_error (fst (handleDrop onUpload st
         (Some \<lparr>file_name = ''notes.txt'', file_type = ''text/plain''\<rparr>)))
     = Some ''Please upload a PDF file''"
  by (simp add: handleFileSelect_def handleFileUpload_def handleDrop_def uploadPaper_begin_def
      succeeded_def Let_def)

text \<open>
  C6, as the code has it. \<open>uploadPaper\<close> and \<open>askQuestion\<close> set the loading flag before
  their request and have cleared it when they complete, whatever the outcome. \<open>createGroup\<close>,
  \<open>deleteGroup\<close>, \<open>addPapersToGroup\<close> and \<open>deletePaper\<close> leave the flag as it was, while
  their request is awaited and when they complete.
\<close>

theorem loading_flag_per_operation:
  "isLoading (in_flight s (UploadPaper f ru rp))
   \<and> \<not> isLoading (step s (UploadPaper f ru rp))
   \<and> isLoading (in_flight s (AskQuestion q c ra))
   \<and> \<not> isLoading (step s (AskQuestion q c ra))
   \<and> isLoading (in_flight s (CreateGroup n d ids rc rg)) = isLoading s
   \<and> isLoading (step s (CreateGroup n d ids rc rg)) = isLoading s
   \<and> isLoading (in_flight s (DeleteGroup gid rd rg)) = isLoading s
   \<and> isLoading (step s (DeleteGroup gid rd rg)) = isLoading s
   \<and> isLoading (in_flight s (AddPapersToGroup gid ids rd rg)) = isLoading s
   \<and> isLoading (step s (AddPapersToGroup gid ids rd rg)) = isLoading s
   \<and> isLoading (in_flight s (DeletePaper pid rd rp)) = isLoading s
   \<and> isLoading (step s (DeletePaper pid rd rp)) = isLoading s"
  by (simp add: uploadPaper_begin_def askQuestion_begin_def)

text \<open>
  C6 as worded has every mutating call enter the loading state. From the initial state, a
  group creation is awaited with the loading flag still off.
\<close>

theorem createGroup_never_loading:
  "\<not> isLoading (in_flight initial
       (CreateGroup ''Seizure Detection Papers'' None [] (Response True (Json None))
          (Response True (Json (Some [])))))"
  by (simp add: initial_def)

text \<open>
  C7. When the request of an operation fails (the promise rejects or the status is not ok),
  the papers, the groups and both selections are as before, and so are the mode and the
  sidebar; the transcript is as before too, except for a failed question, which appends the
  user message and the apology. The failure is that of the operation's own request; the list
  refresh that follows a successful request is a \<open>fetchPapers\<close> or \<open>fetchGroups\<close> of its
  own, whose failure leaves its list as it was (\<open>fetch_failed\<close>).
\<close>

theorem failed_request_keeps_state:
  assumes "request_failed e"
  shows "papers (step s e) = papers s
       \<and> groups (step s e) = groups s
       \<and> selectedPaper (step s e) = selectedPaper s
       \<and> selectedGroup (step s e) = selectedGroup s
       \<and> mode (step s e) = mode s
       \<and> sidebarOpen (step s e) = sidebarOpen s
       \<and> messages (step s e)
           = (case e of AskQuestion q c r \<Rightarrow> messages s @ [userMessage q c, errorMessage c]
              | _ \<Rightarrow> messages s)"
  using assms by (cases e) simp_all

theorem failed_request_keeps_state_witness:
  "request_failed (DeleteGroup ''g1'' (Response False (Json ())) (Rejected ''offline''))
   \<and> selectedGroup (step (run [SelectGroup (Some \<lparr>group_id = ''g1'', name = ''Seizure Detection Papers'',
          description = None, paper_ids = [''p1'', ''p2''], created_date = ''2024-01-01''\<rparr>)])
        (DeleteGroup ''g1'' (Response False (Json ())) (Rejected ''offline''))) = Some \<lparr>group_id = ''g1'', name = ''Seizure Detection Papers'',
          description = None, paper_ids = [''p1'', ''p2''], created_date = ''2024-01-01''\<rparr>
   \<and> request_failed (AskQuestion ''What is the sample size?'' \<lparr>now_user = 1000, date_user = 1000, now_reply = 2000, date_reply = 2000\<rparr> (Rejected ''offline''))
   \<and> messages (step (run [SelectGroup (Some \<lparr>group_id = ''g1'', name = ''Seizure Detection Papers'',
          description = None, paper_ids = [''p1'', ''p2''], created_date = ''2024-01-01''\<rparr>)])
        (AskQuestion ''What is the sample size?'' \<lparr>now_user = 1000, date_user = 1000, now_reply = 2000, date_reply = 2000\<rparr> (Rejected ''offline'')))
       = [userMessage ''What is the sample size?'' \<lparr>now_user = 1000, date_user = 1000, now_reply = 2000, date_reply = 2000\<rparr>, errorMessage \<lparr>now_user = 1000, date_user = 1000, now_reply = 2000, date_reply = 2000\<rparr>]"
proof -
  have f1: "request_failed (DeleteGroup ''g1'' (Response False (Json ())) (Rejected ''offline''))"
    by simp
  have f2: "request_failed (AskQuestion ''What is the sample size?'' \<lparr>now_user = 1000, date_user = 1000, now_reply = 2000, date_reply = 2000\<rparr> (Rejected ''offline''))"
    by simp
  show ?thesis
    using f1 f2
      failed_request_keeps_state [OF f1, of "run [SelectGroup (Some \<lparr>group_id = ''g1'', name = ''Seizure Detection Papers'',
          description = None, paper_ids = [''p1'', ''p2''], created_date = ''2024-01-01''\<rparr>)]"]
      failed_request_keeps_state [OF f2, of "run [SelectGroup (Some \<lparr>group_id = ''g1'', name = ''Seizure Detection Papers'',
          description = None, paper_ids = [''p1'', ''p2''], created_date = ''2024-01-01''\<rparr>)]"]
    by (simp add: run_def initial_def onSelectGroup_def)
qed

text \<open>
  C8. When a call of \<open>askQuestion\<close> has completed, whatever the outcome of its request, the
  loading flag is off; it was on while the request was awaited. So the send button is disabled
  only for an empty input, and a non-empty input is submitted.
\<close>

theorem askQuestion_clears_loading:
  "\<not> isLoading (askQuestion s q c r)
   \<and> isLoading (fst (askQuestion_begin s q c))
   \<and> submitDisabled next_input (isLoading (askQuestion s q c r)) = (next_input = [])
   \<and> handleSubmit next_input (isLoading (askQuestion s q c r))
       = (if next_input = [] then None else Some next_input)"
  by (simp add: askQuestion_begin_def submitDisabled_def handleSubmit_def)

text \<open>
  C9. When the selected paper is deleted and the delete request comes back ok, no paper is
  selected afterwards; likewise for the selected group.
\<close>

theorem delete_clears_selection:
  "(selectedPaper s = Some p \<longrightarrow>
      selectedPaper (deletePaper s (paper_id p) (Response True b) rp) = None)
   \<and> (selectedGroup s = Some g \<longrightarrow>
      selectedGroup (deleteGroup s (group_id g) (Response True b') rg) = None)"
  by (simp add: deletePaper_def deleteGroup_def)

theorem delete_clears_selection_witness:
  "selectedPaper (run [SelectPaper (Some \<lparr>paper_id = ''p1'', filename = ''eeg.pdf'', title = None,
          upload_date = ''2024-01-01'', total_pages = 12, total_chunks = 40\<rparr>)]) = Some \<lparr>paper_id = ''p1'', filename = ''eeg.pdf'', title = None,
          upload_date = ''2024-01-01'', total_pages = 12, total_chunks = 40\<rparr>
   \<and> selectedPaper (deletePaper (run [SelectPaper (Some \<lparr>paper_id = ''p1'', filename = ''eeg.pdf'', title = None,
          upload_date = ''2024-01-01'', total_pages = 12, total_chunks = 40\<rparr>)]) ''p1''
        (Response True (Json ())) (Response True (Json (Some [])))) = None
   \<and> selectedGroup (run [SelectGroup (Some \<lparr>group_id = ''g1'', name = ''Seizure Detection Papers'',
          description = None, paper_ids = [''p1'', ''p2''], created_date = ''2024-01-01''\<rparr>)]) = Some \<lparr>group_id = ''g1'', name = ''Seizure Detection Papers'',
          description = None, paper_ids = [''p1'', ''p2''], created_date = ''2024-01-01''\<rparr>
   \<and> selectedGroup (deleteGroup (run [SelectGroup (Some \<lparr>group_id = ''g1'', name = ''Seizure Detection Papers'',
          description = None, paper_ids = [''p1'', ''p2''], created_date = ''2024-01-01''\<rparr>)]) ''g1''
        (Response True (Json ())) (Rejected ''offline'')) = None"
proof -
  have sp: "selectedPaper (run [SelectPaper (Some \<lparr>paper_id = ''p1'', filename = ''eeg.pdf'', title = None,
          upload_date = ''2024-01-01'', total_pages = 12, total_chunks = 40\<rparr>)]) = Some \<lparr>paper_id = ''p1'', filename = ''eeg.pdf'', title = None,
          upload_date = ''2024-01-01'', total_pages = 12, total_chunks = 40\<rparr>"
    by (simp add: run_def onSelectPaper_def)
  have sg: "selectedGroup (run [SelectGroup (Some \<lparr>group_id = ''g1'', name = ''Seizure Detection Papers'',
          description = None, paper_ids = [''p1'', ''p2''], created_date = ''2024-01-01''\<rparr>)]) = Some \<lparr>group_id = ''g1'', name = ''Seizure Detection Papers'',
          description = None, paper_ids = [''p1'', ''p2''], created_date = ''2024-01-01''\<rparr>"
    by (simp add: run_def onSelectGroup_def)
  show ?thesis
    using sp sg
      delete_clears_selection [of "run [SelectPaper (Some \<lparr>paper_id = ''p1'', filename = ''eeg.pdf'', title = None,
          upload_date = ''2024-01-01'', total_pages = 12, total_chunks = 40\<rparr>)]" "\<lparr>paper_id = ''p1'', filename = ''eeg.pdf'', title = None,
          upload_date = ''2024-01-01'', total_pages = 12, total_chunks = 40\<rparr>"
        "Json ()" "Response True (Json (Some []))" "\<lparr>group_id = ''g1'', name = ''Seizure Detection Papers'',
          description = None, paper_ids = [''p1'', ''p2''], created_date = ''2024-01-01''\<rparr>" "Json ()" "Rejected ''offline''"]
      delete_clears_selection [of "run [SelectGroup (Some \<lparr>group_id = ''g1'', name = ''Seizure Detection Papers'',
          description = None, paper_ids = [''p1'', ''p2''], created_date = ''2024-01-01''\<rparr>)]" "\<lparr>paper_id = ''p1'', filename = ''eeg.pdf'', title = None,
          upload_date = ''2024-01-01'', total_pages = 12, total_chunks = 40\<rparr>"
        "Json ()" "Response True (Json (Some []))" "\<lparr>group_id = ''g1'', name = ''Seizure Detection Papers'',
          description = None, paper_ids = [''p1'', ''p2''], created_date = ''2024-01-01''\<rparr>" "Json ()" "Rejected ''offline''"]
    by simp
qed

text \<open>
  C10. On a duplicate-free list of selected paper ids, \<open>togglePaper\<close> gives a duplicate-free
  list in which the toggled id's membership is inverted and the membership of every other id
  is as before; toggling the same id twice gives back the original set of ids.
\<close>

theorem togglePaper_inverts_membership:
  assumes "distinct prev"
  shows "distinct (togglePaper prev paperId)
       \<and> (paperId \<in> set (togglePaper prev paperId)) = (paperId \<notin> set prev)
       \<and> (\<forall>other. other \<noteq> paperId \<longrightarrow>
             (other \<in> set (togglePaper prev paperId)) = (other \<in> set prev))
       \<and> set (togglePaper (togglePaper prev paperId) paperId) = set prev"
  using assms by (auto simp: togglePaper_def)

theorem togglePaper_inverts_membership_witness:
  "distinct [''p1'', ''p2'']
     \<and> distinct (togglePaper [''p1'', ''p2''] ''p2'')
     \<and> togglePaper [''p1'', ''p2''] ''p2'' = [''p1'']
     \<and> set (togglePaper (togglePaper [''p1'', ''p2''] ''p2'') ''p2'') = set [''p1'', ''p2'']"
proof -
  have d: "distinct [''p1'', ''p2'']" by simp
  have t: "togglePaper [''p1'', ''p2''] ''p2'' = [''p1'']" by (simp add: togglePaper_def)
  show ?thesis
    using d t togglePaper_inverts_membership [OF d, of "''p2''"] by simp
qed

end
